theory Spec2Isabelle
  imports Main
begin

section \<open>uGit: the data model of git.h\<close>

text \<open>
  The simulator keeps three things in static variables of git.c: the staging list
  \<open>file_list\<close>, the history \<open>commit_list\<close> and the flag \<open>is_repo_initialized\<close>
  (\<open>version_list\<close> is declared and never read or written, so it is left out).
  Every function of git.c is embedded as a function from the variables before the call
  to the value returned, the lines printed and the variables after the call.

  A C string is modelled by the list of its characters before the terminating NUL. A
  singly linked list is modelled by the list of its nodes from the head; a \<open>FileNode\<close>
  carries nothing but its name.
\<close>

definition MAX_ARG_LENGTH :: nat where
  "MAX_ARG_LENGTH = 50"

definition MAX_FILES :: nat where
  "MAX_FILES = 10"

type_synonym FileNode = string

text \<open>
  \<open>archivos\<close> is an array of \<open>MAX_FILES\<close> nodes inside the commit: slot \<open>i\<close> is
  \<open>archivos c i\<close>, read as a C string, and only the indices below \<open>MAX_FILES\<close> are
  ever used.
\<close>

record commitGit =
  archivos :: "nat \<Rightarrow> FileNode"
  mensaje :: string

record globals =
  file_list :: "FileNode list"
  commit_list :: "commitGit list"
  is_repo_initialized :: int

text \<open>
  One constructor for each line that git.c writes: the format strings of its \<open>printf\<close>
  calls, with the argument of \<open>%s\<close>, and its two \<open>perror\<close> calls (accents left out
  here):
  \<^item> \<open>AlreadyInitialized\<close>: "El repositorio ya esta inicializado." (\<open>init_repo\<close>);
  \<^item> \<open>NotInitialized\<close>: "Error: El repositorio no ha sido inicializado. Ejecuta 'init'
    primero." (\<open>check_repo_initialized\<close>);
  \<^item> \<open>Replacing\<close>: "El archivo %s ya existe. Reemplazando el archivo.", \<open>Added\<close>:
    "Archivo %s agregado al area de preparacion.", \<open>AllocErrorFile\<close>:
    \<open>perror("Error al asignar memoria")\<close> (\<open>add_file\<close>);
  \<^item> \<open>FileNotFound\<close>: "Archivo no encontrado: %s", \<open>Removed\<close>: "Archivo %s eliminado."
    (\<open>remove_file\<close>);
  \<^item> \<open>CommitCreated\<close>: "Commit creado con exito: %s", \<open>AllocErrorCommit\<close>:
    \<open>perror("Error al asignar memoria para el commit")\<close> (\<open>commit\<close>);
  \<^item> \<open>LogHeader\<close>: "==Historial de Commits==", \<open>NoCommits\<close>: "No hay commits."
    (\<open>log_commits\<close>);
  \<^item> \<open>CommitNotFound\<close>: "Error: Commit con ID '%s' no encontrado.", \<open>Restored\<close>:
    "Restaurado al commit: %s" (\<open>checkout_commit\<close>);
  \<^item> \<open>NoFiles\<close>: "No hay archivos en el area de preparacion.", \<open>FilesHeader\<close>:
    "Archivos en el area de preparacion:" (\<open>list_files\<close>);
  \<^item> \<open>Line\<close>: "%s" on a line of its own, a message in \<open>log_commits\<close> and a name in
    \<open>list_files\<close>.
\<close>

datatype message =
    AlreadyInitialized
  | NotInitialized
  | Replacing string
  | AllocErrorFile
  | Added string
  | FileNotFound string
  | Removed string
  | AllocErrorCommit
  | CommitCreated string
  | LogHeader
  | NoCommits
  | Line string
  | CommitNotFound string
  | Restored string
  | NoFiles
  | FilesHeader

record outcome =
  ret :: int
  printed :: "message list"
  after :: globals

text \<open>
  The idiom \<open>strncpy(dst, src, MAX_ARG_LENGTH); dst[MAX_ARG_LENGTH - 1] = '\0';\<close>:
  the destination then reads as the first \<open>MAX_ARG_LENGTH - 1\<close> characters of the source.
\<close>

definition strncpy_terminated :: "string \<Rightarrow> string" where
  "strncpy_terminated src = take (MAX_ARG_LENGTH - 1) src"

text \<open>
  The same idiom byte by byte. \<open>strncpy(dst, src, n)\<close> writes \<open>n\<close> bytes: the
  characters of \<open>src\<close>, at most \<open>n\<close> of them, and NULs after them up to \<open>n\<close>.
  \<open>terminated_array src\<close> is the array of \<open>MAX_ARG_LENGTH\<close> bytes after both
  statements, and \<open>c_string\<close> is what \<open>strlen\<close>, \<open>strcmp\<close> and \<open>%s\<close> read from an
  array: the bytes before the first NUL.
\<close>

definition NUL :: char where
  "NUL = CHR 0x00"

definition strncpy :: "string \<Rightarrow> nat \<Rightarrow> char list" where
  "strncpy src n = take n src @ replicate (n - length src) NUL"

definition terminated_array :: "string \<Rightarrow> char list" where
  "terminated_array src = (strncpy src MAX_ARG_LENGTH)[MAX_ARG_LENGTH - 1 := NUL]"

definition c_string :: "char list \<Rightarrow> string" where
  "c_string bytes = takeWhile (\<lambda>b. b \<noteq> NUL) bytes"

section \<open>The operations of git.c\<close>

definition init_repo :: "globals \<Rightarrow> outcome" where
  "init_repo s =
     (if is_repo_initialized s \<noteq> 0
      then \<lparr>ret = 0, printed = [AlreadyInitialized], after = s\<rparr>
      else \<lparr>ret = 0, printed = [], after = s\<lparr>is_repo_initialized := 1\<rparr>\<rparr>)"

definition check_repo_initialized :: "globals \<Rightarrow> int \<times> message list" where
  "check_repo_initialized s =
     (if is_repo_initialized s = 0 then (0, [NotInitialized]) else (1, []))"

text \<open>
  The search loop of \<open>add_file\<close>: the first node whose name compares equal to the
  argument is overwritten in place; \<open>None\<close> when the loop reaches the end of the list.
\<close>

fun add_scan :: "FileNode list \<Rightarrow> string \<Rightarrow> FileNode list option" where
  "add_scan [] filename = None"
| "add_scan (current # rest) filename =
     (if current = filename then Some (strncpy_terminated filename # rest)
      else map_option ((#) current) (add_scan rest filename))"

text \<open>
  \<open>malloc_ok\<close> says whether \<open>malloc\<close> returns a node; its contents do not matter,
  since \<open>strncpy\<close> fills the whole name and \<open>next\<close> is assigned.
\<close>

definition add_file :: "bool \<Rightarrow> string \<Rightarrow> globals \<Rightarrow> outcome" where
  "add_file malloc_ok filename s =
     (if fst (check_repo_initialized s) = 0
      then \<lparr>ret = - 1, printed = snd (check_repo_initialized s), after = s\<rparr>
      else case add_scan (file_list s) filename of
        Some fl \<Rightarrow> \<lparr>ret = 0, printed = [Replacing filename], after = s\<lparr>file_list := fl\<rparr>\<rparr>
      | None \<Rightarrow>
          if \<not> malloc_ok then \<lparr>ret = - 1, printed = [AllocErrorFile], after = s\<rparr>
          else \<lparr>ret = 0, printed = [Added filename],
                after = s\<lparr>file_list := strncpy_terminated filename # file_list s\<rparr>\<rparr>)"

text \<open>
  The loop of \<open>remove_file\<close> with the unlinking that follows it: the first node whose
  name equals the argument is taken out; \<open>None\<close> when there is none.
\<close>

fun remove_scan :: "FileNode list \<Rightarrow> string \<Rightarrow> FileNode list option" where
  "remove_scan [] filename = None"
| "remove_scan (current # rest) filename =
     (if current = filename then Some rest
      else map_option ((#) current) (remove_scan rest filename))"

definition remove_file :: "string \<Rightarrow> globals \<Rightarrow> outcome" where
  "remove_file filename s =
     (if fst (check_repo_initialized s) = 0
      then \<lparr>ret = - 1, printed = snd (check_repo_initialized s), after = s\<rparr>
      else case remove_scan (file_list s) filename of
        None \<Rightarrow> \<lparr>ret = - 1, printed = [FileNotFound filename], after = s\<rparr>
      | Some fl \<Rightarrow> \<lparr>ret = 0, printed = [Removed filename], after = s\<lparr>file_list := fl\<rparr>\<rparr>)"

text \<open>
  The copying loop of \<open>commit\<close>: it walks the staging list and writes slot \<open>index\<close>
  while \<open>index < MAX_FILES\<close>. The slots it does not reach keep what the block held.
\<close>

fun commit_loop :: "FileNode list \<Rightarrow> nat \<Rightarrow> (nat \<Rightarrow> FileNode) \<Rightarrow> (nat \<Rightarrow> FileNode)" where
  "commit_loop [] index arch = arch"
| "commit_loop (current_file # rest) index arch =
     (if index < MAX_FILES
      then commit_loop rest (index + 1) (arch(index := strncpy_terminated current_file))
      else arch)"

text \<open>
  \<open>commit\<close> obtains its record from \<open>malloc\<close>, which does not clear it. The argument
  \<open>block\<close> is what \<open>malloc\<close> hands back: \<open>None\<close> for a null pointer, \<open>Some fresh\<close>
  for a block whose slot \<open>i\<close> reads as the C string \<open>fresh i\<close> before anything is
  written to it. The message field is overwritten in full.
\<close>

definition commit :: "(nat \<Rightarrow> FileNode) option \<Rightarrow> string \<Rightarrow> globals \<Rightarrow> outcome" where
  "commit block msg s =
     (if fst (check_repo_initialized s) = 0
      then \<lparr>ret = - 1, printed = snd (check_repo_initialized s), after = s\<rparr>
      else case block of
        None \<Rightarrow> \<lparr>ret = - 1, printed = [AllocErrorCommit], after = s\<rparr>
      | Some fresh \<Rightarrow>
          \<lparr>ret = 0, printed = [CommitCreated msg],
           after = s\<lparr>commit_list :=
             \<lparr>archivos = commit_loop (file_list s) 0 fresh,
              mensaje = strncpy_terminated msg\<rparr> # commit_list s\<rparr>\<rparr>)"

definition log_commits :: "globals \<Rightarrow> outcome" where
  "log_commits s =
     (if fst (check_repo_initialized s) = 0
      then \<lparr>ret = - 1, printed = snd (check_repo_initialized s), after = s\<rparr>
      else if commit_list s = []
      then \<lparr>ret = 0, printed = [LogHeader, NoCommits], after = s\<rparr>
      else \<lparr>ret = 0, printed = LogHeader # map (\<lambda>c. Line (mensaje c)) (commit_list s),
            after = s\<rparr>)"

text \<open>The search loop of \<open>checkout_commit\<close>: the first commit whose message equals the id.\<close>

fun find_commit :: "commitGit list \<Rightarrow> string \<Rightarrow> commitGit option" where
  "find_commit [] commit_id = None"
| "find_commit (current_commit # rest) commit_id =
     (if mensaje current_commit \<noteq> commit_id then find_commit rest commit_id
      else Some current_commit)"

text \<open>
  The \<open>for\<close> loop of \<open>checkout_commit\<close>: every slot \<open>i < MAX_FILES\<close> with a non-empty
  name gets a new node, linked in at the head of the list. The result of \<open>malloc\<close> is
  not tested there, so a null pointer is written through: \<open>avail\<close> is the number of
  nodes \<open>malloc\<close> can still provide, and \<open>None\<close> is the crash.
\<close>

function restore_loop :: "commitGit \<Rightarrow> nat \<Rightarrow> nat \<Rightarrow> FileNode list \<Rightarrow> FileNode list option" where
  "restore_loop c i avail fl =
     (if i < MAX_FILES
      then if archivos c i \<noteq> []
           then (case avail of
                   0 \<Rightarrow> None
                 | Suc k \<Rightarrow> restore_loop c (i + 1) k (strncpy_terminated (archivos c i) # fl))
           else restore_loop c (i + 1) avail fl
      else Some fl)"
  by pat_completeness auto
termination
  by (relation "measure (\<lambda>(c, i, avail, fl). MAX_FILES - i)") auto

declare restore_loop.simps [simp del]

definition checkout_commit :: "nat \<Rightarrow> string \<Rightarrow> globals \<Rightarrow> outcome option" where
  "checkout_commit avail commit_id s =
     (if fst (check_repo_initialized s) = 0
      then Some \<lparr>ret = - 1, printed = snd (check_repo_initialized s), after = s\<rparr>
      else case find_commit (commit_list s) commit_id of
        None \<Rightarrow> Some \<lparr>ret = - 1, printed = [CommitNotFound commit_id], after = s\<rparr>
      | Some c \<Rightarrow>
          (case restore_loop c 0 avail [] of
             None \<Rightarrow> None
           | Some fl \<Rightarrow>
               Some \<lparr>ret = 0, printed = [Restored commit_id], after = s\<lparr>file_list := fl\<rparr>\<rparr>))"

definition list_files :: "globals \<Rightarrow> outcome" where
  "list_files s =
     (if fst (check_repo_initialized s) = 0
      then \<lparr>ret = - 1, printed = snd (check_repo_initialized s), after = s\<rparr>
      else if file_list s = []
      then \<lparr>ret = 0, printed = [NoFiles], after = s\<rparr>
      else \<lparr>ret = 0, printed = FilesHeader # map Line (file_list s), after = s\<rparr>)"

section \<open>The bound on stored names\<close>

text \<open>
  A name of fewer than \<open>MAX_ARG_LENGTH\<close> characters fits its array of
  \<open>MAX_ARG_LENGTH\<close> bytes together with the terminating NUL; a longer one means that
  the array holds no NUL. \<open>names_bounded\<close> says that every name the repository holds
  fits: every staged name, and of every commit the message and each of the
  \<open>MAX_FILES\<close> file names of \<open>archivos\<close>.
\<close>

definition names_bounded :: "globals \<Rightarrow> bool" where
  "names_bounded s \<longleftrightarrow>
     (\<forall>f \<in> set (file_list s). length f < MAX_ARG_LENGTH) \<and>
     (\<forall>c \<in> set (commit_list s).
        length (mensaje c) < MAX_ARG_LENGTH \<and>
        (\<forall>n \<in> set (map (archivos c) [0..<MAX_FILES]). length n < MAX_ARG_LENGTH))"

text \<open>
  The part of it that does not look into \<open>archivos\<close>: the staged names and the commit
  messages.
\<close>

definition staged_and_messages_bounded :: "globals \<Rightarrow> bool" where
  "staged_and_messages_bounded s \<longleftrightarrow>
     (\<forall>f \<in> set (file_list s). length f < MAX_ARG_LENGTH) \<and>
     (\<forall>c \<in> set (commit_list s). length (mensaje c) < MAX_ARG_LENGTH)"

section \<open>Concrete states and blocks\<close>

text \<open>The static variables as git.c initialises them, before any call.\<close>

definition startup :: globals where
  "startup = \<lparr>file_list = [], commit_list = [], is_repo_initialized = 0\<rparr>"

text \<open>A block that \<open>malloc\<close> returns with every byte zero: each slot reads as \<open>""\<close>.\<close>

definition zeroed :: "nat \<Rightarrow> FileNode" where
  "zeroed i = []"

text \<open>
  A block that \<open>malloc\<close> returns with bytes left over from earlier use: slot 1 reads
  as \<open>"junk"\<close>, the other slots as \<open>""\<close>.
\<close>

definition stale :: "nat \<Rightarrow> FileNode" where
  "stale i = (if i = 1 then ''junk'' else [])"

text \<open>
  A block that \<open>malloc\<close> returns with no NUL among the \<open>MAX_ARG_LENGTH\<close> bytes of
  slot 1: read as a C string, the slot runs on past its array, here for 70 characters.
  The other slots read as \<open>""\<close>.
\<close>

definition overlong :: "nat \<Rightarrow> FileNode" where
  "overlong i = (if i = 1 then replicate 70 CHR ''j'' else [])"

text \<open>\<open>init\<close>, \<open>add a\<close>, \<open>add b\<close>, \<open>commit m\<close> on a zeroed block.\<close>

definition two_files_committed :: globals where
  "two_files_committed =
     after (commit (Some zeroed) ''m''
       (after (add_file True ''b'' (after (add_file True ''a'' (after (init_repo startup)))))))"

text \<open>
  A history of three commits, the two older ones with the same message: the newer of
  them holds \<open>b\<close>, the older holds \<open>a\<close>.
\<close>

definition shared_message :: globals where
  "shared_message =
     \<lparr>file_list = [''z''],
      commit_list =
        [\<lparr>archivos = zeroed(0 := ''c''), mensaje = ''other''\<rparr>,
         \<lparr>archivos = zeroed(0 := ''b''), mensaje = ''dup''\<rparr>,
         \<lparr>archivos = zeroed(0 := ''a''), mensaje = ''dup''\<rparr>],
      is_repo_initialized = 1\<rparr>"


section \<open>Facts about the loops\<close>

lemma check_repo_initialized_fst [simp]:
  "fst (check_repo_initialized s) = 0 \<longleftrightarrow> is_repo_initialized s = 0"
  by (simp add: check_repo_initialized_def)

lemma check_repo_initialized_snd [simp]:
  "is_repo_initialized s = 0 \<Longrightarrow> snd (check_repo_initialized s) = [NotInitialized]"
  by (simp add: check_repo_initialized_def)

text \<open>
  After the copying loop, slot \<open>i\<close> holds the truncated name of staged file number
  \<open>i - k\<close> when the loop reached it, and what the block held otherwise.
\<close>

lemma commit_loop_slots:
  "commit_loop fl k arch i =
     (if k \<le> i \<and> i < k + length fl \<and> i < MAX_FILES
      then strncpy_terminated (fl ! (i - k)) else arch i)"
proof (induction fl arbitrary: k arch)
  case Nil
  then show ?case by auto
next
  case (Cons f fl)
  show ?case
  proof (cases "k < MAX_FILES")
    case True
    then show ?thesis
      by (auto simp: Cons.IH nth_Cons')
  next
    case False
    then show ?thesis by auto
  qed
qed

text \<open>
  With a node available for every remaining slot, the restoring loop ends, and it has
  pushed the non-empty slots one by one: the last slot read is the first of the list.
\<close>

lemma restore_loop_enough:
  "MAX_FILES - i \<le> avail \<Longrightarrow>
   restore_loop c i avail fl =
     Some (rev (map strncpy_terminated
                  (filter (\<lambda>n. n \<noteq> []) (map (archivos c) [i..<MAX_FILES]))) @ fl)"
proof (induction c i avail fl rule: restore_loop.induct)
  case (1 c i avail fl)
  show ?case
  proof (cases "i < MAX_FILES")
    case False
    then show ?thesis by (subst restore_loop.simps) simp
  next
    case lt: True
    show ?thesis
    proof (cases "archivos c i = []")
      case True
      with lt "1.IH"(2) "1.prems" show ?thesis
        by (subst restore_loop.simps) (simp add: upt_conv_Cons)
    next
      case False
      from lt "1.prems" obtain k where k: "avail = Suc k" by (cases avail) auto
      with False lt "1.IH"(1) [of k] "1.prems" show ?thesis
        by (subst restore_loop.simps) (simp add: upt_conv_Cons)
    qed
  qed
qed

lemma find_commit_None:
  "find_commit cs commit_id = None \<longleftrightarrow> (\<forall>c \<in> set cs. mensaje c \<noteq> commit_id)"
  by (induction cs) auto

lemma find_commit_exists:
  "(\<exists>c. find_commit cs commit_id = Some c) \<longleftrightarrow> (\<exists>d \<in> set cs. mensaje d = commit_id)"
  using find_commit_None [of cs commit_id] by auto

lemma find_commit_first:
  "(\<forall>d \<in> set pre. mensaje d \<noteq> commit_id) \<Longrightarrow> mensaje c = commit_id \<Longrightarrow>
   find_commit (pre @ c # post) commit_id = Some c"
  by (induction pre) auto

lemma checkout_commit_found:
  assumes "is_repo_initialized s \<noteq> 0" and "find_commit (commit_list s) commit_id = Some c"
    and "MAX_FILES \<le> avail"
  shows "checkout_commit avail commit_id s =
     Some \<lparr>ret = 0, printed = [Restored commit_id],
           after = s\<lparr>file_list :=
             rev (map strncpy_terminated
                    (filter (\<lambda>n. n \<noteq> []) (map (archivos c) [0..<MAX_FILES])))\<rparr>\<rparr>"
  using assms restore_loop_enough [of 0 avail c "[]"]
  by (simp add: checkout_commit_def)

section \<open>Checkout of an unknown id\<close>

text \<open>
  C3: in an initialised repository, when no commit of the history has the message
  \<open>commit_id\<close>, \<open>checkout_commit\<close> returns -1 after printing that the commit was not
  found, and the static variables (staging list included) are what they were before
  the call. No node is allocated on this path, so this holds whatever \<open>malloc\<close> would do.
\<close>

theorem C3_checkout_not_found_unchanged:
  assumes "is_repo_initialized s \<noteq> 0"
    and "\<forall>c \<in> set (commit_list s). mensaje c \<noteq> commit_id"
  shows "checkout_commit avail commit_id s =
     Some \<lparr>ret = - 1, printed = [CommitNotFound commit_id], after = s\<rparr>"
proof -
  from assms(2) have "find_commit (commit_list s) commit_id = None"
    by (simp add: find_commit_None)
  with assms(1) show ?thesis
    by (simp add: checkout_commit_def)
qed

text \<open>
  C3 at a concrete state: two staged files and one commit \<open>m\<close>; the id
  \<open>does-not-exist\<close> matches nothing and the listing stays \<open>b\<close>, \<open>a\<close>.
\<close>

theorem C3_checkout_not_found_unchanged_witness:
  "is_repo_initialized two_files_committed \<noteq> 0 \<and>
   map mensaje (commit_list two_files_committed) = [''m''] \<and>
   file_list two_files_committed = [''b'', ''a''] \<and>
   checkout_commit 0 ''does-not-exist'' two_files_committed =
     Some \<lparr>ret = - 1, printed = [CommitNotFound ''does-not-exist''],
           after = two_files_committed\<rparr>"
proof -
  have init: "is_repo_initialized two_files_committed \<noteq> 0"
    by (simp add: two_files_committed_def commit_def add_file_def init_repo_def startup_def)
  have none: "\<forall>c \<in> set (commit_list two_files_committed). mensaje c \<noteq> ''does-not-exist''"
    by (simp add: two_files_committed_def commit_def add_file_def init_repo_def startup_def
        strncpy_terminated_def MAX_ARG_LENGTH_def)
  have staged: "file_list two_files_committed = [''b'', ''a'']"
    by (simp add: two_files_committed_def commit_def add_file_def init_repo_def startup_def
        strncpy_terminated_def MAX_ARG_LENGTH_def)
  have msgs: "map mensaje (commit_list two_files_committed) = [''m'']"
    by (simp add: two_files_committed_def commit_def add_file_def init_repo_def startup_def
        strncpy_terminated_def MAX_ARG_LENGTH_def)
  from C3_checkout_not_found_unchanged [OF init none, of 0] init msgs staged
  show ?thesis by simp
qed

section \<open>Operations before init\<close>

text \<open>
  C5: while \<open>is_repo_initialized\<close> is 0, each of \<open>add_file\<close>, \<open>remove_file\<close>,
  \<open>commit\<close>, \<open>log_commits\<close>, \<open>checkout_commit\<close> and \<open>list_files\<close> returns -1, prints
  the not-initialised error and leaves the static variables as they were, whatever
  its arguments and whatever \<open>malloc\<close> would answer.
\<close>

theorem C5_uninitialized_operations_fail:
  "is_repo_initialized s = 0 \<Longrightarrow>
     add_file malloc_ok filename s = \<lparr>ret = - 1, printed = [NotInitialized], after = s\<rparr> \<and>
     remove_file filename s = \<lparr>ret = - 1, printed = [NotInitialized], after = s\<rparr> \<and>
     commit block msg s = \<lparr>ret = - 1, printed = [NotInitialized], after = s\<rparr> \<and>
     log_commits s = \<lparr>ret = - 1, printed = [NotInitialized], after = s\<rparr> \<and>
     checkout_commit avail commit_id s =
       Some \<lparr>ret = - 1, printed = [NotInitialized], after = s\<rparr> \<and>
     list_files s = \<lparr>ret = - 1, printed = [NotInitialized], after = s\<rparr>"
  by (simp add: add_file_def remove_file_def commit_def log_commits_def checkout_commit_def
      list_files_def)

text \<open>
  C5 at program start; a later \<open>init\<close> then finds the staging list still empty.
\<close>

theorem C5_uninitialized_operations_fail_witness:
  "is_repo_initialized startup = 0 \<and>
   add_file True ''x'' startup = \<lparr>ret = - 1, printed = [NotInitialized], after = startup\<rparr> \<and>
   remove_file ''x'' startup = \<lparr>ret = - 1, printed = [NotInitialized], after = startup\<rparr> \<and>
   commit (Some zeroed) ''m'' startup =
     \<lparr>ret = - 1, printed = [NotInitialized], after = startup\<rparr> \<and>
   log_commits startup = \<lparr>ret = - 1, printed = [NotInitialized], after = startup\<rparr> \<and>
   checkout_commit 10 ''m'' startup =
     Some \<lparr>ret = - 1, printed = [NotInitialized], after = startup\<rparr> \<and>
   list_files startup = \<lparr>ret = - 1, printed = [NotInitialized], after = startup\<rparr> \<and>
   file_list (after (init_repo (after (add_file True ''x'' startup)))) = []"
proof -
  have uninit: "is_repo_initialized startup = 0"
    by (simp add: startup_def)
  from C5_uninitialized_operations_fail
         [OF uninit, of True "''x''" "Some zeroed" "''m''" 10 "''m''"] uninit
  show ?thesis by (simp add: init_repo_def startup_def)
qed

section \<open>What a commit records\<close>

lemma strncpy_terminated_short:
  "length n < MAX_ARG_LENGTH \<Longrightarrow> strncpy_terminated n = n"
  by (simp add: strncpy_terminated_def)

lemma strncpy_terminated_length:
  "length (strncpy_terminated n) < MAX_ARG_LENGTH"
  by (simp add: strncpy_terminated_def MAX_ARG_LENGTH_def)




section \<open>Which commit a checkout takes\<close>

text \<open>
  C7: in an initialised repository, when the history is \<open>pre @ c # post\<close> with no
  message in \<open>pre\<close> equal to \<open>commit_id\<close> and the message of \<open>c\<close> equal to it,
  \<open>checkout_commit\<close> restores the staging list from the slots of \<open>c\<close>, whatever
  \<open>post\<close> holds; and it answers not-found exactly when no commit of the history has
  a message equal to \<open>commit_id\<close>. Equality of \<open>string\<close>s is equality of every
  character, as \<open>strcmp(...) == 0\<close> is.
\<close>

theorem C7_checkout_first_match:
  assumes "is_repo_initialized s \<noteq> 0"
  shows "(commit_list s = pre @ c # post \<and> (\<forall>d \<in> set pre. mensaje d \<noteq> commit_id) \<and>
      mensaje c = commit_id \<and> MAX_FILES \<le> avail \<longrightarrow>
      checkout_commit avail commit_id s =
        Some \<lparr>ret = 0, printed = [Restored commit_id],
              after = s\<lparr>file_list :=
                rev (map strncpy_terminated
                       (filter (\<lambda>n. n \<noteq> []) (map (archivos c) [0..<MAX_FILES])))\<rparr>\<rparr>) \<and>
     (checkout_commit avail commit_id s =
        Some \<lparr>ret = - 1, printed = [CommitNotFound commit_id], after = s\<rparr> \<longleftrightarrow>
      (\<forall>c \<in> set (commit_list s). mensaje c \<noteq> commit_id))"
proof (intro conjI impI)
  assume h: "commit_list s = pre @ c # post \<and> (\<forall>d \<in> set pre. mensaje d \<noteq> commit_id) \<and>
      mensaje c = commit_id \<and> MAX_FILES \<le> avail"
  then have "find_commit (commit_list s) commit_id = Some c"
    by (simp add: find_commit_first)
  with assms h show "checkout_commit avail commit_id s =
        Some \<lparr>ret = 0, printed = [Restored commit_id],
              after = s\<lparr>file_list :=
                rev (map strncpy_terminated
                       (filter (\<lambda>n. n \<noteq> []) (map (archivos c) [0..<MAX_FILES])))\<rparr>\<rparr>"
    by (simp add: checkout_commit_found)
next
  show "checkout_commit avail commit_id s =
        Some \<lparr>ret = - 1, printed = [CommitNotFound commit_id], after = s\<rparr> \<longleftrightarrow>
      (\<forall>c \<in> set (commit_list s). mensaje c \<noteq> commit_id)"
  proof (cases "find_commit (commit_list s) commit_id")
    case None
    with assms show ?thesis
      by (simp add: checkout_commit_def find_commit_None [symmetric])
  next
    case (Some c)
    then have "\<not> (\<forall>c \<in> set (commit_list s). mensaje c \<noteq> commit_id)"
      by (simp add: find_commit_None [symmetric])
    with assms Some show ?thesis
      by (simp add: checkout_commit_def split: option.split)
  qed
qed

text \<open>
  C7 at a history \<open>other\<close>, \<open>dup\<close>, \<open>dup\<close> (newest first): the id \<open>dup\<close> takes the
  newer of the two, which holds \<open>b\<close>; the id \<open>Dup\<close> is not found.
\<close>

theorem C7_checkout_first_match_witness:
  "map mensaje (commit_list shared_message) = [''other'', ''dup'', ''dup''] \<and>
   checkout_commit 10 ''dup'' shared_message =
     Some \<lparr>ret = 0, printed = [Restored ''dup''],
           after = shared_message\<lparr>file_list := [''b'']\<rparr>\<rparr> \<and>
   checkout_commit 10 ''Dup'' shared_message =
     Some \<lparr>ret = - 1, printed = [CommitNotFound ''Dup''], after = shared_message\<rparr>"
proof -
  have init: "is_repo_initialized shared_message \<noteq> 0"
    by (simp add: shared_message_def)
  have msgs: "map mensaje (commit_list shared_message) = [''other'', ''dup'', ''dup'']"
    by (simp add: shared_message_def)
  have split: "commit_list shared_message =
      [\<lparr>archivos = zeroed(0 := ''c''), mensaje = ''other''\<rparr>] @
      \<lparr>archivos = zeroed(0 := ''b''), mensaje = ''dup''\<rparr> #
      [\<lparr>archivos = zeroed(0 := ''a''), mensaje = ''dup''\<rparr>]"
    by (simp add: shared_message_def)
  have slots: "rev (map strncpy_terminated
      (filter (\<lambda>n. n \<noteq> []) (map (zeroed(0 := ''b'')) [0..<MAX_FILES]))) = [''b'']"
    by (simp add: MAX_FILES_def zeroed_def strncpy_terminated_def MAX_ARG_LENGTH_def
        upt_conv_Cons)
  have none: "\<forall>c \<in> set (commit_list shared_message). mensaje c \<noteq> ''Dup''"
    by (simp add: shared_message_def)
  from C7_checkout_first_match [OF init,
      of "[\<lparr>archivos = zeroed(0 := ''c''), mensaje = ''other''\<rparr>]"
         "\<lparr>archivos = zeroed(0 := ''b''), mensaje = ''dup''\<rparr>"
         "[\<lparr>archivos = zeroed(0 := ''a''), mensaje = ''dup''\<rparr>]" "''dup''" 10]
    split slots
  have found: "checkout_commit 10 ''dup'' shared_message =
     Some \<lparr>ret = 0, printed = [Restored ''dup''],
           after = shared_message\<lparr>file_list := [''b'']\<rparr>\<rparr>"
    by (simp add: MAX_FILES_def)
  from C7_checkout_first_match [OF init, of "[]" "\<lparr>archivos = zeroed, mensaje = []\<rparr>" "[]" "''Dup''" 10]
    none
  have missing: "checkout_commit 10 ''Dup'' shared_message =
     Some \<lparr>ret = - 1, printed = [CommitNotFound ''Dup''], after = shared_message\<rparr>"
    by simp
  from msgs found missing show ?thesis by simp
qed

section \<open>The order of the history\<close>

text \<open>
  C8: in an initialised repository, \<open>commit\<close> puts the new commit, with the message
  cut to \<open>MAX_ARG_LENGTH - 1\<close> characters, in front of the history; \<open>log_commits\<close>
  prints its header and then the messages from the head of the history on; so after
  \<open>commit m1\<close> and \<open>commit m2\<close> it prints \<open>m2\<close>, then \<open>m1\<close>, then the messages of
  the commits that were there before.
\<close>

theorem C8_history_newest_first:
  assumes "is_repo_initialized s \<noteq> 0"
  shows "(\<exists>c. commit_list (after (commit (Some fresh) msg s)) = c # commit_list s \<and>
          mensaje c = strncpy_terminated msg) \<and>
     printed (log_commits s) =
       (if commit_list s = [] then [LogHeader, NoCommits]
        else LogHeader # map (\<lambda>c. Line (mensaje c)) (commit_list s)) \<and>
     printed (log_commits (after (commit (Some f2) m2 (after (commit (Some f1) m1 s))))) =
       LogHeader # Line (strncpy_terminated m2) # Line (strncpy_terminated m1) #
         map (\<lambda>c. Line (mensaje c)) (commit_list s)"
  using assms by (simp add: commit_def log_commits_def)

text \<open>C8 on a fresh repository: the log reads \<open>m2\<close>, \<open>m1\<close>.\<close>

theorem C8_history_newest_first_witness:
  "commit_list (after (init_repo startup)) = [] \<and>
   printed (log_commits (after (commit (Some zeroed) ''m2''
      (after (commit (Some zeroed) ''m1'' (after (init_repo startup))))))) =
     [LogHeader, Line ''m2'', Line ''m1'']"
proof -
  have init: "is_repo_initialized (after (init_repo startup)) \<noteq> 0"
    by (simp add: init_repo_def startup_def)
  have empty: "commit_list (after (init_repo startup)) = []"
    by (simp add: init_repo_def startup_def)
  have m: "strncpy_terminated ''m1'' = ''m1''" "strncpy_terminated ''m2'' = ''m2''"
    by (simp_all add: strncpy_terminated_def MAX_ARG_LENGTH_def)
  from C8_history_newest_first [OF init, of zeroed "''m1''" zeroed "''m2''" zeroed "''m1''"]
    empty m
  show ?thesis by simp
qed

section \<open>What a checkout restores\<close>

text \<open>
  C1, as the specification words it, asks the staging list after a checkout to be in
  the commit's stored order. At \<open>init\<close>, \<open>add a\<close>, \<open>add b\<close>, \<open>commit m\<close> the staging
  list is \<open>b\<close>, \<open>a\<close> and the commit stores \<open>b\<close> in slot 0 and \<open>a\<close> in slot 1; after
  \<open>checkout m\<close> the staging list is \<open>a\<close>, \<open>b\<close>.
\<close>

theorem C1_stored_order_counterexample:
  "file_list two_files_committed = [''b'', ''a''] \<and>
   map (archivos (hd (commit_list two_files_committed))) [0..<2] = [''b'', ''a''] \<and>
   map_option (file_list \<circ> after) (checkout_commit MAX_FILES ''m'' two_files_committed) =
     Some [''a'', ''b''] \<and>
   map_option (file_list \<circ> after) (checkout_commit MAX_FILES ''m'' two_files_committed) \<noteq>
     Some (map (archivos (hd (commit_list two_files_committed))) [0..<2])"
proof -
  have init: "is_repo_initialized two_files_committed \<noteq> 0"
    by (simp add: two_files_committed_def commit_def add_file_def init_repo_def startup_def)
  have staged: "file_list two_files_committed = [''b'', ''a'']"
    by (simp add: two_files_committed_def commit_def add_file_def init_repo_def startup_def
        strncpy_terminated_def MAX_ARG_LENGTH_def)
  have hist: "commit_list two_files_committed =
      [\<lparr>archivos = commit_loop [''b'', ''a''] 0 zeroed, mensaje = ''m''\<rparr>]"
    by (simp add: two_files_committed_def commit_def add_file_def init_repo_def startup_def
        strncpy_terminated_def MAX_ARG_LENGTH_def)
  have slots: "map (commit_loop [''b'', ''a''] 0 zeroed) [0..<MAX_FILES] =
      [''b'', ''a'', [], [], [], [], [], [], [], []]"
    by (simp add: commit_loop_slots MAX_FILES_def zeroed_def strncpy_terminated_def
        MAX_ARG_LENGTH_def upt_conv_Cons)
  have first2: "map (commit_loop [''b'', ''a''] 0 zeroed) [0..<2] = [''b'', ''a'']"
    by (simp add: commit_loop_slots MAX_FILES_def zeroed_def strncpy_terminated_def
        MAX_ARG_LENGTH_def upt_conv_Cons)
  have found: "find_commit (commit_list two_files_committed) ''m'' =
      Some \<lparr>archivos = commit_loop [''b'', ''a''] 0 zeroed, mensaje = ''m''\<rparr>"
    by (simp add: hist)
  have out: "map_option (file_list \<circ> after) (checkout_commit MAX_FILES ''m'' two_files_committed) =
     Some [''a'', ''b'']"
    using checkout_commit_found [OF init found order_refl] slots
    by (simp add: strncpy_terminated_def MAX_ARG_LENGTH_def)
  have stored: "map (archivos (hd (commit_list two_files_committed))) [0..<2] = [''b'', ''a'']"
    by (simp only: hist list.sel commitGit.select_convs first2)
  show ?thesis
    by (simp only: staged stored out) simp
qed

text \<open>
  C1, amended: in an initialised repository where the search finds the commit \<open>c\<close>
  for \<open>commit_id\<close>, and \<open>malloc\<close> provides the nodes, \<open>checkout_commit\<close> returns 0
  and replaces the staging list by new nodes for the slots of \<open>c\<close> that hold a
  non-empty name, each name cut to \<open>MAX_ARG_LENGTH - 1\<close> characters, in the reverse of
  the slot order: every node is linked in at the head. In particular, when the slots
  of \<open>c\<close> are the non-empty names \<open>names\<close>, each shorter than \<open>MAX_ARG_LENGTH\<close>,
  followed by empty slots, the staging list becomes \<open>rev names\<close>. The history and the
  flag are as before.
\<close>

theorem C1_checkout_restores_reversed:
  assumes "is_repo_initialized s \<noteq> 0" and "find_commit (commit_list s) commit_id = Some c"
    and "MAX_FILES \<le> avail"
  shows "checkout_commit avail commit_id s =
       Some \<lparr>ret = 0, printed = [Restored commit_id],
             after = s\<lparr>file_list :=
               rev (map strncpy_terminated
                      (filter (\<lambda>n. n \<noteq> []) (map (archivos c) [0..<MAX_FILES])))\<rparr>\<rparr> \<and>
     (map (archivos c) [0..<MAX_FILES] = names @ replicate (MAX_FILES - length names) [] \<and>
      (\<forall>n \<in> set names. n \<noteq> [] \<and> length n < MAX_ARG_LENGTH) \<longrightarrow>
      checkout_commit avail commit_id s =
        Some \<lparr>ret = 0, printed = [Restored commit_id], after = s\<lparr>file_list := rev names\<rparr>\<rparr>)"
proof (intro conjI impI)
  show general: "checkout_commit avail commit_id s =
       Some \<lparr>ret = 0, printed = [Restored commit_id],
             after = s\<lparr>file_list :=
               rev (map strncpy_terminated
                      (filter (\<lambda>n. n \<noteq> []) (map (archivos c) [0..<MAX_FILES])))\<rparr>\<rparr>"
    using assms by (rule checkout_commit_found)
  assume h: "map (archivos c) [0..<MAX_FILES] = names @ replicate (MAX_FILES - length names) [] \<and>
      (\<forall>n \<in> set names. n \<noteq> [] \<and> length n < MAX_ARG_LENGTH)"
  then have "filter (\<lambda>n. n \<noteq> []) (map (archivos c) [0..<MAX_FILES]) = names"
    by (simp add: filter_id_conv)
  moreover from h have "map strncpy_terminated names = names"
    by (intro map_idI) (simp add: strncpy_terminated_short)
  ultimately show "checkout_commit avail commit_id s =
        Some \<lparr>ret = 0, printed = [Restored commit_id], after = s\<lparr>file_list := rev names\<rparr>\<rparr>"
    using general by simp
qed

text \<open>C1, amended, at the state of the counterexample: \<open>b\<close>, \<open>a\<close> comes back as \<open>a\<close>, \<open>b\<close>.\<close>

theorem C1_checkout_restores_reversed_witness:
  "file_list two_files_committed = [''b'', ''a''] \<and>
   checkout_commit MAX_FILES ''m'' two_files_committed =
     Some \<lparr>ret = 0, printed = [Restored ''m''],
           after = two_files_committed\<lparr>file_list := rev [''b'', ''a'']\<rparr>\<rparr>"
proof -
  have init: "is_repo_initialized two_files_committed \<noteq> 0"
    by (simp add: two_files_committed_def commit_def add_file_def init_repo_def startup_def)
  have staged: "file_list two_files_committed = [''b'', ''a'']"
    by (simp add: two_files_committed_def commit_def add_file_def init_repo_def startup_def
        strncpy_terminated_def MAX_ARG_LENGTH_def)
  have hist: "commit_list two_files_committed =
      [\<lparr>archivos = commit_loop [''b'', ''a''] 0 zeroed, mensaje = ''m''\<rparr>]"
    by (simp add: two_files_committed_def commit_def add_file_def init_repo_def startup_def
        strncpy_terminated_def MAX_ARG_LENGTH_def)
  have found: "find_commit (commit_list two_files_committed) ''m'' =
      Some \<lparr>archivos = commit_loop [''b'', ''a''] 0 zeroed, mensaje = ''m''\<rparr>"
    by (simp add: hist)
  have slots: "map (archivos \<lparr>archivos = commit_loop [''b'', ''a''] 0 zeroed, mensaje = ''m''\<rparr>)
        [0..<MAX_FILES] =
      [''b'', ''a''] @ replicate (MAX_FILES - length [''b'', ''a'']) []"
    by (simp add: commit_loop_slots MAX_FILES_def zeroed_def strncpy_terminated_def
        MAX_ARG_LENGTH_def upt_conv_Cons eval_nat_numeral)
  have names: "\<forall>n \<in> set [''b'', ''a'']. n \<noteq> [] \<and> length n < MAX_ARG_LENGTH"
    by (simp add: MAX_ARG_LENGTH_def)
  from C1_checkout_restores_reversed [OF init found order_refl, of "[''b'', ''a'']"]
    slots names staged
  show ?thesis by blast
qed

section \<open>The round trip through a commit\<close>

text \<open>
  C2: the specification expects \<open>add x\<close>, \<open>commit first\<close>, \<open>rm x\<close>,
  \<open>checkout first\<close> to end with the listing \<open>x\<close> alone. \<open>commit\<close> writes slot 0
  only and never clears the other slots of the block it got from \<open>malloc\<close>, while
  \<open>checkout_commit\<close> reads all \<open>MAX_FILES\<close> slots and takes every non-empty one for
  a stored name. On a block whose slot 1 reads \<open>junk\<close> the listing ends as \<open>junk\<close>,
  \<open>x\<close>.
\<close>

theorem C2_round_trip_on_stale_block:
  "map_option (file_list \<circ> after)
     (checkout_commit MAX_FILES ''first''
        (after (remove_file ''x''
           (after (commit (Some stale) ''first''
              (after (add_file True ''x'' (after (init_repo startup))))))))) =
   Some [''junk'', ''x'']"
proof -
  have state: "after (remove_file ''x''
           (after (commit (Some stale) ''first''
              (after (add_file True ''x'' (after (init_repo startup))))))) =
      \<lparr>file_list = [],
       commit_list = [\<lparr>archivos = commit_loop [''x''] 0 stale, mensaje = ''first''\<rparr>],
       is_repo_initialized = 1\<rparr>"
    by (simp add: remove_file_def commit_def add_file_def init_repo_def startup_def
        strncpy_terminated_def MAX_ARG_LENGTH_def del: commit_loop.simps)
  have slots: "map (commit_loop [''x''] 0 stale) [0..<MAX_FILES] =
      [''x'', ''junk'', [], [], [], [], [], [], [], []]"
    by (simp add: commit_loop_slots MAX_FILES_def stale_def strncpy_terminated_def
        MAX_ARG_LENGTH_def upt_conv_Cons)
  have "checkout_commit MAX_FILES ''first''
      \<lparr>file_list = [],
       commit_list = [\<lparr>archivos = commit_loop [''x''] 0 stale, mensaje = ''first''\<rparr>],
       is_repo_initialized = 1\<rparr> =
     Some \<lparr>ret = 0, printed = [Restored ''first''],
       after = \<lparr>file_list = [''junk'', ''x''],
         commit_list = [\<lparr>archivos = commit_loop [''x''] 0 stale, mensaje = ''first''\<rparr>],
         is_repo_initialized = 1\<rparr>\<rparr>"
    using checkout_commit_found [of "\<lparr>file_list = [],
       commit_list = [\<lparr>archivos = commit_loop [''x''] 0 stale, mensaje = ''first''\<rparr>],
       is_repo_initialized = 1\<rparr>" "''first''"
       "\<lparr>archivos = commit_loop [''x''] 0 stale, mensaje = ''first''\<rparr>" MAX_FILES] slots
    by (simp add: strncpy_terminated_def MAX_ARG_LENGTH_def del: commit_loop.simps)
  then show ?thesis
    by (simp only: state) simp
qed

text \<open>
  On any block the same run ends with the non-empty slots 1 to \<open>MAX_FILES - 1\<close> of
  the block, last slot first, and then \<open>x\<close>: so the listing is \<open>x\<close> alone exactly
  when those slots of the block read as empty, as they do on a zeroed block.
\<close>

lemma round_trip_on_any_block:
  "map_option (file_list \<circ> after)
     (checkout_commit MAX_FILES ''first''
        (after (remove_file ''x''
           (after (commit (Some fresh) ''first''
              (after (add_file True ''x'' (after (init_repo startup))))))))) =
   Some (rev (map strncpy_terminated (filter (\<lambda>n. n \<noteq> []) (map fresh [1..<MAX_FILES]))) @
         [''x''])"
proof -
  have state: "after (remove_file ''x''
           (after (commit (Some fresh) ''first''
              (after (add_file True ''x'' (after (init_repo startup))))))) =
      \<lparr>file_list = [],
       commit_list = [\<lparr>archivos = commit_loop [''x''] 0 fresh, mensaje = ''first''\<rparr>],
       is_repo_initialized = 1\<rparr>"
    by (simp add: remove_file_def commit_def add_file_def init_repo_def startup_def
        strncpy_terminated_def MAX_ARG_LENGTH_def del: commit_loop.simps)
  have slots: "map (commit_loop [''x''] 0 fresh) [0..<MAX_FILES] = ''x'' # map fresh [1..<MAX_FILES]"
    by (simp add: commit_loop_slots MAX_FILES_def strncpy_terminated_def
        MAX_ARG_LENGTH_def upt_conv_Cons)
  have "checkout_commit MAX_FILES ''first''
      \<lparr>file_list = [],
       commit_list = [\<lparr>archivos = commit_loop [''x''] 0 fresh, mensaje = ''first''\<rparr>],
       is_repo_initialized = 1\<rparr> =
     Some \<lparr>ret = 0, printed = [Restored ''first''],
       after = \<lparr>file_list =
           rev (map strncpy_terminated (filter (\<lambda>n. n \<noteq> []) (map fresh [1..<MAX_FILES]))) @
           [''x''],
         commit_list = [\<lparr>archivos = commit_loop [''x''] 0 fresh, mensaje = ''first''\<rparr>],
         is_repo_initialized = 1\<rparr>\<rparr>"
    using checkout_commit_found [of "\<lparr>file_list = [],
       commit_list = [\<lparr>archivos = commit_loop [''x''] 0 fresh, mensaje = ''first''\<rparr>],
       is_repo_initialized = 1\<rparr>" "''first''"
       "\<lparr>archivos = commit_loop [''x''] 0 fresh, mensaje = ''first''\<rparr>" MAX_FILES] slots
    by (simp add: strncpy_terminated_def MAX_ARG_LENGTH_def del: commit_loop.simps)
  then show ?thesis
    by (simp only: state) simp
qed

lemma round_trip_on_zeroed_block:
  "map_option (file_list \<circ> after)
     (checkout_commit MAX_FILES ''first''
        (after (remove_file ''x''
           (after (commit (Some zeroed) ''first''
              (after (add_file True ''x'' (after (init_repo startup))))))))) =
   Some [''x'']"
  by (simp only: round_trip_on_any_block) (simp add: zeroed_def)

section \<open>Uniqueness of staged names\<close>

lemma add_scan_None: "add_scan fl filename = None \<longleftrightarrow> filename \<notin> set fl"
  by (induction fl) auto

lemma remove_scan_eq:
  "remove_scan fl filename = (if filename \<in> set fl then Some (remove1 filename fl) else None)"
  by (induction fl) auto

lemma add_scan_short:
  "length filename < MAX_ARG_LENGTH \<Longrightarrow> filename \<in> set fl \<Longrightarrow> add_scan fl filename = Some fl"
  by (induction fl) (auto simp: strncpy_terminated_short)

text \<open>
  C4: the specification expects a name added twice to be staged once. \<open>add_file\<close>
  compares the stored names, which are cut to \<open>MAX_ARG_LENGTH - 1\<close> characters, with
  the whole argument, so a name of \<open>MAX_ARG_LENGTH\<close> characters or more is never found:
  added twice, it is reported as new twice and the staging list holds its first 49
  characters in two nodes.
\<close>

theorem C4_long_name_staged_twice:
  "printed (add_file True (replicate 50 CHR ''a'')
      (after (add_file True (replicate 50 CHR ''a'') (after (init_repo startup))))) =
     [Added (replicate 50 CHR ''a'')] \<and>
   file_list (after (add_file True (replicate 50 CHR ''a'')
      (after (add_file True (replicate 50 CHR ''a'') (after (init_repo startup)))))) =
     [replicate 49 CHR ''a'', replicate 49 CHR ''a'']"
  by (simp add: add_file_def init_repo_def startup_def strncpy_terminated_def
      MAX_ARG_LENGTH_def)

text \<open>
  For a name shorter than \<open>MAX_ARG_LENGTH\<close>, \<open>add_file\<close> keeps the staged names
  distinct, and \<open>remove_file\<close> keeps them distinct for every name.
\<close>

lemma add_file_short_name_distinct:
  assumes "distinct (file_list s)" and "length filename < MAX_ARG_LENGTH"
  shows "distinct (file_list (after (add_file malloc_ok filename s)))"
proof (cases "filename \<in> set (file_list s)")
  case True
  with assms show ?thesis
    by (simp add: add_file_def add_scan_short)
next
  case False
  then have "add_scan (file_list s) filename = None"
    by (simp add: add_scan_None)
  with assms False show ?thesis
    by (simp add: add_file_def strncpy_terminated_short)
qed

lemma remove_file_distinct:
  "distinct (file_list s) \<Longrightarrow> distinct (file_list (after (remove_file filename s)))"
  by (simp add: remove_file_def remove_scan_eq)

text \<open>
  \<open>commit\<close> does not touch the staging list. After a checkout the staged names are
  distinct when the non-empty slots of the commit it took are distinct names shorter
  than \<open>MAX_ARG_LENGTH\<close>.
\<close>

lemma commit_file_list:
  "file_list (after (commit block msg s)) = file_list s"
  by (simp add: commit_def split: option.split)

lemma checkout_commit_distinct:
  assumes "is_repo_initialized s \<noteq> 0" and "find_commit (commit_list s) commit_id = Some c"
    and "MAX_FILES \<le> avail"
    and "distinct (filter (\<lambda>n. n \<noteq> []) (map (archivos c) [0..<MAX_FILES]))"
    and "\<forall>i < MAX_FILES. length (archivos c i) < MAX_ARG_LENGTH"
    and "checkout_commit avail commit_id s = Some r"
  shows "distinct (file_list (after r))"
proof -
  have "map strncpy_terminated (filter (\<lambda>n. n \<noteq> []) (map (archivos c) [0..<MAX_FILES])) =
      filter (\<lambda>n. n \<noteq> []) (map (archivos c) [0..<MAX_FILES])"
    using assms(5) by (intro map_idI) (auto simp: strncpy_terminated_short)
  with assms(4,6) checkout_commit_found [OF assms(1-3)] show ?thesis
    by auto
qed

section \<open>What the caller can tell from the return value\<close>

text \<open>
  C9, as the specification words it, asks the value returned to tell "replaced" from
  "staged" and not-found from not-initialised. On an initialised repository
  \<open>add_file\<close> prints the added line for a new name and the replacing line for a staged
  one and returns the same value for both; \<open>remove_file\<close> prints the not-initialised
  line before \<open>init\<close> and the not-found line after it and returns the same value for
  both.
\<close>

theorem C9_return_values_coincide_counterexample:
  "printed (add_file True ''a.txt'' (after (init_repo startup))) = [Added ''a.txt''] \<and>
   printed (add_file True ''a.txt''
              (after (add_file True ''a.txt'' (after (init_repo startup))))) =
     [Replacing ''a.txt''] \<and>
   ret (add_file True ''a.txt'' (after (init_repo startup))) =
     ret (add_file True ''a.txt'' (after (add_file True ''a.txt'' (after (init_repo startup))))) \<and>
   printed (remove_file ''a.txt'' startup) = [NotInitialized] \<and>
   printed (remove_file ''a.txt'' (after (init_repo startup))) = [FileNotFound ''a.txt''] \<and>
   ret (remove_file ''a.txt'' startup) = ret (remove_file ''a.txt'' (after (init_repo startup)))"
  by (simp add: add_file_def remove_file_def init_repo_def startup_def strncpy_terminated_def
      MAX_ARG_LENGTH_def)

text \<open>
  C9, amended: \<open>add_file\<close> and \<open>remove_file\<close> return 0 or -1 and nothing else.
  \<open>add_file\<close> returns -1 when the repository is not initialised or when the name is
  new and \<open>malloc\<close> fails, and 0 otherwise, for a replaced name as for a newly staged
  one; \<open>remove_file\<close> returns -1 when the repository is not initialised and when the
  name is not staged, and 0 otherwise. Which of the outcomes happened is told by the
  line printed, one line per outcome, and not by the value returned.
\<close>

theorem C9_outcomes_by_return_value:
  "ret (add_file malloc_ok filename s) =
     (if is_repo_initialized s = 0 \<or> (filename \<notin> set (file_list s) \<and> \<not> malloc_ok)
      then - 1 else 0) \<and>
   printed (add_file malloc_ok filename s) =
     [if is_repo_initialized s = 0 then NotInitialized
      else if filename \<in> set (file_list s) then Replacing filename
      else if malloc_ok then Added filename else AllocErrorFile] \<and>
   ret (remove_file filename s) =
     (if is_repo_initialized s = 0 \<or> filename \<notin> set (file_list s) then - 1 else 0) \<and>
   printed (remove_file filename s) =
     [if is_repo_initialized s = 0 then NotInitialized
      else if filename \<in> set (file_list s) then Removed filename
      else FileNotFound filename]"
proof -
  have add: "add_scan (file_list s) filename = None" if "filename \<notin> set (file_list s)"
    using that by (simp add: add_scan_None)
  have add': "\<exists>fl. add_scan (file_list s) filename = Some fl" if "filename \<in> set (file_list s)"
    using that add_scan_None [of "file_list s" filename] by auto
  show ?thesis
    using add add' by (auto simp: add_file_def remove_file_def remove_scan_eq)
qed

text \<open>
  C9, amended, at the four calls of the counterexample: 0 for staged and for replaced,
  -1 for not-initialised and for not-found.
\<close>

theorem C9_outcomes_by_return_value_witness:
  "ret (add_file True ''a.txt'' (after (init_repo startup))) = 0 \<and>
   ret (add_file True ''a.txt'' (after (add_file True ''a.txt'' (after (init_repo startup))))) = 0 \<and>
   ret (remove_file ''a.txt'' startup) = - 1 \<and>
   ret (remove_file ''a.txt'' (after (init_repo startup))) = - 1"
proof -
  have s0: "is_repo_initialized startup = 0" "file_list startup = []"
    by (simp_all add: startup_def)
  have s1: "is_repo_initialized (after (init_repo startup)) = 1"
    "file_list (after (init_repo startup)) = []"
    by (simp_all add: init_repo_def startup_def)
  have s2: "is_repo_initialized (after (add_file True ''a.txt'' (after (init_repo startup)))) = 1"
    "file_list (after (add_file True ''a.txt'' (after (init_repo startup)))) = [''a.txt'']"
    by (simp_all add: add_file_def init_repo_def startup_def strncpy_terminated_def
        MAX_ARG_LENGTH_def)
  from C9_outcomes_by_return_value [of True "''a.txt''" "after (init_repo startup)"]
    C9_outcomes_by_return_value
      [of True "''a.txt''" "after (add_file True ''a.txt'' (after (init_repo startup)))"]
    C9_outcomes_by_return_value [of True "''a.txt''" startup]
    s0 s1 s2
  show ?thesis by simp
qed

section \<open>The bound on stored names is kept\<close>

text \<open>
  The array that the copying idiom leaves has \<open>MAX_ARG_LENGTH\<close> bytes, its last byte
  is NUL, and for a source without NUL it reads as \<open>strncpy_terminated\<close> of the source.
\<close>

lemma terminated_array_length: "length (terminated_array src) = MAX_ARG_LENGTH"
  by (simp add: terminated_array_def strncpy_def)

lemma terminated_array_last: "terminated_array src ! (MAX_ARG_LENGTH - 1) = NUL"
  by (simp add: terminated_array_def strncpy_def MAX_ARG_LENGTH_def)

lemma terminated_array_split:
  "terminated_array src =
     take (MAX_ARG_LENGTH - 1) src @ NUL # replicate (MAX_ARG_LENGTH - 1 - length src) NUL"
proof (cases "length src < MAX_ARG_LENGTH")
  case True
  then have more: "MAX_ARG_LENGTH - length src = Suc (MAX_ARG_LENGTH - 1 - length src)"
    by simp
  from True have "strncpy src MAX_ARG_LENGTH ! (MAX_ARG_LENGTH - 1) = NUL"
    by (auto simp: strncpy_def nth_append)
  then have "terminated_array src = strncpy src MAX_ARG_LENGTH"
    by (simp add: terminated_array_def strncpy_def list_update_same_conv MAX_ARG_LENGTH_def)
  also from True have "\<dots> = src @ replicate (Suc (MAX_ARG_LENGTH - 1 - length src)) NUL"
    by (simp only: strncpy_def more) simp
  finally show ?thesis
    using True by simp
next
  case False
  then have "take MAX_ARG_LENGTH src = take (MAX_ARG_LENGTH - 1) src @ [src ! (MAX_ARG_LENGTH - 1)]"
    by (simp add: MAX_ARG_LENGTH_def take_Suc_conv_app_nth [symmetric])
  with False show ?thesis
    by (simp add: terminated_array_def strncpy_def list_update_append MAX_ARG_LENGTH_def)
qed

lemma c_string_terminated_array:
  "NUL \<notin> set src \<Longrightarrow> c_string (terminated_array src) = strncpy_terminated src"
proof -
  assume "NUL \<notin> set src"
  then have "\<forall>b \<in> set (take (MAX_ARG_LENGTH - 1) src). b \<noteq> NUL"
    by (auto dest: in_set_takeD)
  then show ?thesis
    by (simp add: c_string_def terminated_array_split strncpy_terminated_def takeWhile_append2
        del: replicate_Suc)
qed

lemma restore_loop_bounded:
  "restore_loop c i avail fl = Some fl' \<Longrightarrow>
   \<forall>f \<in> set fl. length f < MAX_ARG_LENGTH \<Longrightarrow>
   \<forall>f \<in> set fl'. length f < MAX_ARG_LENGTH"
proof (induction c i avail fl rule: restore_loop.induct)
  case (1 c i avail fl)
  show ?case
  proof (cases "i < MAX_FILES")
    case False
    with "1.prems" show ?thesis
      by (subst (asm) restore_loop.simps) simp
  next
    case lt: True
    show ?thesis
    proof (cases "archivos c i = []")
      case True
      with lt "1.prems"(1) have "restore_loop c (i + 1) avail fl = Some fl'"
        by (subst (asm) restore_loop.simps) simp
      with lt True "1.IH"(2) "1.prems"(2) show ?thesis by blast
    next
      case False
      with lt "1.prems"(1) obtain k where k: "avail = Suc k"
        and rec: "restore_loop c (i + 1) k (strncpy_terminated (archivos c i) # fl) = Some fl'"
        by (subst (asm) restore_loop.simps) (cases avail; simp)
      have "\<forall>f \<in> set (strncpy_terminated (archivos c i) # fl). length f < MAX_ARG_LENGTH"
        using "1.prems"(2) by (simp add: strncpy_terminated_length)
      with lt False k rec "1.IH"(1) show ?thesis by blast
    qed
  qed
qed

lemma add_scan_bounded:
  "add_scan fl filename = Some fl' \<Longrightarrow> \<forall>f \<in> set fl. length f < MAX_ARG_LENGTH \<Longrightarrow>
   \<forall>f \<in> set fl'. length f < MAX_ARG_LENGTH"
  by (induction fl arbitrary: fl') (auto simp: strncpy_terminated_length split: if_splits)

lemma staged_and_messages_bounded_init_repo:
  "staged_and_messages_bounded s \<Longrightarrow> staged_and_messages_bounded (after (init_repo s))"
  by (simp add: staged_and_messages_bounded_def init_repo_def)

lemma staged_and_messages_bounded_add_file:
  "staged_and_messages_bounded s \<Longrightarrow>
   staged_and_messages_bounded (after (add_file malloc_ok filename s))"
  by (auto simp: staged_and_messages_bounded_def add_file_def strncpy_terminated_length
      split: option.split dest: add_scan_bounded)

lemma staged_and_messages_bounded_remove_file:
  "staged_and_messages_bounded s \<Longrightarrow>
   staged_and_messages_bounded (after (remove_file filename s))"
  by (auto simp: staged_and_messages_bounded_def remove_file_def remove_scan_eq
      dest: notin_set_remove1)

lemma staged_and_messages_bounded_commit:
  "staged_and_messages_bounded s \<Longrightarrow>
   staged_and_messages_bounded (after (commit block msg s))"
  by (auto simp: staged_and_messages_bounded_def commit_def strncpy_terminated_length
      split: option.split)

text \<open>
  After a checkout that returns, every staged name is shorter than \<open>MAX_ARG_LENGTH\<close>,
  whatever the slots of the commit held: the restoring loop cuts what it copies.
\<close>

lemma checkout_commit_after:
  assumes "checkout_commit avail commit_id s = Some r"
  shows "after r = s \<or>
     (\<exists>fl. after r = s\<lparr>file_list := fl\<rparr> \<and> (\<forall>f \<in> set fl. length f < MAX_ARG_LENGTH))"
proof (cases "is_repo_initialized s = 0 \<or> find_commit (commit_list s) commit_id = None")
  case True
  with assms have "after r = s"
    by (auto simp: checkout_commit_def split: if_splits)
  then show ?thesis by simp
next
  case False
  then obtain c where c: "find_commit (commit_list s) commit_id = Some c" by auto
  with False assms obtain fl where fl: "restore_loop c 0 avail [] = Some fl"
    and r: "after r = s\<lparr>file_list := fl\<rparr>"
    by (auto simp: checkout_commit_def split: option.splits)
  from restore_loop_bounded [OF fl] have "\<forall>f \<in> set fl. length f < MAX_ARG_LENGTH"
    by simp
  with r show ?thesis by blast
qed

lemma staged_and_messages_bounded_checkout_commit:
  "staged_and_messages_bounded s \<Longrightarrow> checkout_commit avail commit_id s = Some r \<Longrightarrow>
   staged_and_messages_bounded (after r)"
  using checkout_commit_after [of avail commit_id s r]
  by (auto simp: staged_and_messages_bounded_def)

text \<open>
  No operation changes a commit once it is in the history: \<open>commit\<close> puts one
  commit in front, everything else leaves the history as it is.
\<close>

lemma history_only_grows:
  "commit_list (after (init_repo s)) = commit_list s"
  "commit_list (after (add_file malloc_ok filename s)) = commit_list s"
  "commit_list (after (remove_file filename s)) = commit_list s"
  "commit_list (after (log_commits s)) = commit_list s"
  "commit_list (after (list_files s)) = commit_list s"
  "checkout_commit avail commit_id s = Some r \<Longrightarrow> commit_list (after r) = commit_list s"
  "commit_list (after (commit block msg s)) = commit_list s \<or>
   tl (commit_list (after (commit block msg s))) = commit_list s"
  by (auto simp: init_repo_def add_file_def remove_file_def log_commits_def list_files_def
      checkout_commit_def commit_def split: option.splits if_splits)

lemma commit_written_slots_bounded:
  "is_repo_initialized s \<noteq> 0 \<Longrightarrow> i < min (length (file_list s)) MAX_FILES \<Longrightarrow>
   archivos (hd (commit_list (after (commit (Some fresh) msg s)))) i =
     strncpy_terminated (file_list s ! i)"
  by (simp add: commit_def commit_loop_slots)

text \<open>
  What the operations write themselves stays bounded: the staged names and the commit
  messages after every operation, for arguments of any length and any answer of
  \<open>malloc\<close>, and the slots that the copying loop of \<open>commit\<close> reaches. The array the
  copying idiom leaves has its last byte NUL.
\<close>

lemma written_names_stay_bounded:
  assumes "staged_and_messages_bounded s"
  shows "staged_and_messages_bounded (after (init_repo s)) \<and>
     staged_and_messages_bounded (after (add_file malloc_ok filename s)) \<and>
     staged_and_messages_bounded (after (remove_file filename s)) \<and>
     staged_and_messages_bounded (after (commit block msg s)) \<and>
     staged_and_messages_bounded (after (log_commits s)) \<and>
     staged_and_messages_bounded (after (list_files s)) \<and>
     (\<forall>r. checkout_commit avail commit_id s = Some r \<longrightarrow>
        staged_and_messages_bounded (after r)) \<and>
     (is_repo_initialized s \<noteq> 0 \<longrightarrow>
      (\<forall>i < min (length (file_list s)) MAX_FILES.
         length (archivos (hd (commit_list (after (commit (Some fresh) msg s)))) i)
           < MAX_ARG_LENGTH)) \<and>
     length (strncpy_terminated src) < MAX_ARG_LENGTH \<and>
     length (terminated_array src) = MAX_ARG_LENGTH \<and>
     terminated_array src ! (MAX_ARG_LENGTH - 1) = NUL \<and>
     (NUL \<notin> set src \<longrightarrow> c_string (terminated_array src) = strncpy_terminated src)"
proof -
  have log: "after (log_commits s) = s" and ls: "after (list_files s) = s"
    by (simp_all add: log_commits_def list_files_def)
  have slots: "length (archivos (hd (commit_list (after (commit (Some fresh) msg s)))) i)
      < MAX_ARG_LENGTH"
    if "is_repo_initialized s \<noteq> 0" and "i < min (length (file_list s)) MAX_FILES" for i
    using that by (simp add: commit_written_slots_bounded strncpy_terminated_length)
  from assms show ?thesis
    using staged_and_messages_bounded_init_repo staged_and_messages_bounded_add_file
      staged_and_messages_bounded_remove_file staged_and_messages_bounded_commit
      staged_and_messages_bounded_checkout_commit slots terminated_array_last [of src]
    by (simp add: log ls strncpy_terminated_length terminated_array_length
        c_string_terminated_array)
qed

section \<open>The bound on the file names of a commit\<close>

text \<open>
  \<open>names_bounded\<close> looks at all \<open>MAX_FILES\<close> slots of every commit. The slots that
  the copying loop of \<open>commit\<close> does not reach hold what the block from \<open>malloc\<close> held,
  so \<open>commit\<close> keeps \<open>names_bounded\<close> when those slots of the block read as names
  shorter than \<open>MAX_ARG_LENGTH\<close>, as they do on a zeroed block. Every other operation
  keeps it always.
\<close>

lemma names_bounded_staged:
  "names_bounded s \<Longrightarrow> staged_and_messages_bounded s"
  by (simp add: names_bounded_def staged_and_messages_bounded_def)

lemma names_bounded_same_history:
  assumes "names_bounded s" and "commit_list s' = commit_list s"
    and "\<forall>f \<in> set (file_list s'). length f < MAX_ARG_LENGTH"
  shows "names_bounded s'"
  using assms by (simp add: names_bounded_def)

lemma names_bounded_commit_on_bounded_block:
  assumes "names_bounded s"
    and "\<forall>n \<in> set (map fresh [0..<MAX_FILES]). length n < MAX_ARG_LENGTH"
  shows "names_bounded (after (commit (Some fresh) msg s))"
proof -
  have "length (commit_loop (file_list s) 0 fresh i) < MAX_ARG_LENGTH" if "i < MAX_FILES" for i
    using that assms(2) by (simp add: commit_loop_slots strncpy_terminated_length)
  with assms(1) show ?thesis
    by (simp add: names_bounded_def commit_def strncpy_terminated_length)
qed

lemma names_bounded_kept:
  assumes "names_bounded s"
  shows "names_bounded (after (init_repo s))"
    and "names_bounded (after (add_file malloc_ok filename s))"
    and "names_bounded (after (remove_file filename s))"
    and "names_bounded (after (commit None msg s))"
    and "names_bounded (after (log_commits s))"
    and "names_bounded (after (list_files s))"
    and "checkout_commit avail commit_id s = Some r \<Longrightarrow> names_bounded (after r)"
proof -
  from assms have w: "staged_and_messages_bounded s"
    by (rule names_bounded_staged)
  show "names_bounded (after (init_repo s))"
    using assms by (simp add: names_bounded_def init_repo_def)
  show "names_bounded (after (add_file malloc_ok filename s))"
    using assms staged_and_messages_bounded_add_file [OF w, of malloc_ok filename]
    by (intro names_bounded_same_history [OF assms])
      (simp_all add: history_only_grows staged_and_messages_bounded_def)
  show "names_bounded (after (remove_file filename s))"
    using assms staged_and_messages_bounded_remove_file [OF w, of filename]
    by (intro names_bounded_same_history [OF assms])
      (simp_all add: history_only_grows staged_and_messages_bounded_def)
  show "names_bounded (after (commit None msg s))"
    using assms by (simp add: commit_def)
  show "names_bounded (after (log_commits s))"
    using assms by (simp add: log_commits_def)
  show "names_bounded (after (list_files s))"
    using assms by (simp add: list_files_def)
  show "names_bounded (after r)" if "checkout_commit avail commit_id s = Some r"
    using assms staged_and_messages_bounded_checkout_commit [OF w that]
    by (intro names_bounded_same_history [OF assms])
      (simp_all add: history_only_grows(6) [OF that] staged_and_messages_bounded_def)
qed

text \<open>
  C10: the specification expects every file name held in a commit to be terminated
  within its array, that is shorter than \<open>MAX_ARG_LENGTH\<close>. After \<open>init\<close>, \<open>add x\<close>,
  \<open>commit first\<close> on a block whose slot 1 holds no NUL, the call returns 0, slot 0
  of the new commit holds \<open>x\<close> and slot 1 is as the block had it: it reads on for 70
  characters, which is not fewer than \<open>MAX_ARG_LENGTH\<close>. \<open>commit\<close> writes and
  terminates only the slots its loop reaches, and never clears the others.
\<close>

theorem C10_unwritten_slot_not_terminated:
  "ret (commit (Some overlong) ''first''
          (after (add_file True ''x'' (after (init_repo startup))))) = 0 \<and>
   archivos (hd (commit_list (after (commit (Some overlong) ''first''
       (after (add_file True ''x'' (after (init_repo startup)))))))) 0 = ''x'' \<and>
   length (archivos (hd (commit_list (after (commit (Some overlong) ''first''
       (after (add_file True ''x'' (after (init_repo startup)))))))) 1) = 70 \<and>
   \<not> length (archivos (hd (commit_list (after (commit (Some overlong) ''first''
       (after (add_file True ''x'' (after (init_repo startup)))))))) 1) < MAX_ARG_LENGTH"
proof -
  have state: "after (add_file True ''x'' (after (init_repo startup))) =
      \<lparr>file_list = [''x''], commit_list = [], is_repo_initialized = 1\<rparr>"
    by (simp add: add_file_def init_repo_def startup_def strncpy_terminated_def
        MAX_ARG_LENGTH_def)
  have slot0: "commit_loop [''x''] 0 overlong 0 = ''x''"
    by (simp add: commit_loop_slots MAX_FILES_def strncpy_terminated_def MAX_ARG_LENGTH_def)
  have slot1: "commit_loop [''x''] 0 overlong (Suc 0) = replicate 70 CHR ''j''"
    by (simp add: commit_loop_slots overlong_def)
  show ?thesis
    by (simp only: state) (simp add: commit_def slot0 slot1 MAX_ARG_LENGTH_def
        del: commit_loop.simps)
qed

text \<open>
  So the state before that commit satisfies \<open>names_bounded\<close> and the state after it
  does not, while a later checkout of the commit still stages names shorter than
  \<open>MAX_ARG_LENGTH\<close>: the first 49 characters of slot 1, then \<open>x\<close>.
\<close>

lemma names_bounded_lost_on_overlong_block:
  "names_bounded (after (add_file True ''x'' (after (init_repo startup)))) \<and>
   \<not> names_bounded (after (commit (Some overlong) ''first''
        (after (add_file True ''x'' (after (init_repo startup))))))"
proof -
  have state: "after (add_file True ''x'' (after (init_repo startup))) =
      \<lparr>file_list = [''x''], commit_list = [], is_repo_initialized = 1\<rparr>"
    by (simp add: add_file_def init_repo_def startup_def strncpy_terminated_def
        MAX_ARG_LENGTH_def)
  have slot1: "commit_loop [''x''] 0 overlong (Suc 0) = replicate 70 CHR ''j''"
    by (simp add: commit_loop_slots overlong_def)
  have in_range: "Suc 0 \<in> set [0..<MAX_FILES]"
    by (simp add: MAX_FILES_def)
  have before: "names_bounded \<lparr>file_list = [''x''], commit_list = [], is_repo_initialized = 1\<rparr>"
    by (simp add: names_bounded_def MAX_ARG_LENGTH_def)
  have "\<not> (\<forall>n \<in> set (map (commit_loop [''x''] 0 overlong) [0..<MAX_FILES]).
      length n < MAX_ARG_LENGTH)"
  proof
    assume "\<forall>n \<in> set (map (commit_loop [''x''] 0 overlong) [0..<MAX_FILES]).
      length n < MAX_ARG_LENGTH"
    with in_range have "length (commit_loop [''x''] 0 overlong (Suc 0)) < MAX_ARG_LENGTH"
      by (simp del: commit_loop.simps)
    then show False
      by (simp only: slot1) (simp add: MAX_ARG_LENGTH_def)
  qed
  then have after_commit: "\<not> names_bounded (after (commit (Some overlong) ''first''
      \<lparr>file_list = [''x''], commit_list = [], is_repo_initialized = 1\<rparr>))"
    by (simp add: names_bounded_def commit_def del: commit_loop.simps)
  from before after_commit show ?thesis
    by (simp only: state) simp
qed

lemma checkout_of_overlong_slot:
  "map_option (file_list \<circ> after)
     (checkout_commit MAX_FILES ''first''
        (after (commit (Some overlong) ''first''
           (after (add_file True ''x'' (after (init_repo startup))))))) =
   Some [replicate 49 CHR ''j'', ''x'']"
proof -
  have state: "after (commit (Some overlong) ''first''
           (after (add_file True ''x'' (after (init_repo startup))))) =
      \<lparr>file_list = [''x''],
       commit_list = [\<lparr>archivos = commit_loop [''x''] 0 overlong, mensaje = ''first''\<rparr>],
       is_repo_initialized = 1\<rparr>"
    by (simp add: commit_def add_file_def init_repo_def startup_def
        strncpy_terminated_def MAX_ARG_LENGTH_def del: commit_loop.simps)
  have slots: "map (commit_loop [''x''] 0 overlong) [0..<MAX_FILES] =
      [''x'', replicate 70 CHR ''j'', [], [], [], [], [], [], [], []]"
    by (simp add: commit_loop_slots MAX_FILES_def overlong_def strncpy_terminated_def
        MAX_ARG_LENGTH_def upt_conv_Cons)
  have "checkout_commit MAX_FILES ''first''
      \<lparr>file_list = [''x''],
       commit_list = [\<lparr>archivos = commit_loop [''x''] 0 overlong, mensaje = ''first''\<rparr>],
       is_repo_initialized = 1\<rparr> =
     Some \<lparr>ret = 0, printed = [Restored ''first''],
       after = \<lparr>file_list = [replicate 49 CHR ''j'', ''x''],
         commit_list = [\<lparr>archivos = commit_loop [''x''] 0 overlong, mensaje = ''first''\<rparr>],
         is_repo_initialized = 1\<rparr>\<rparr>"
    using checkout_commit_found [of "\<lparr>file_list = [''x''],
       commit_list = [\<lparr>archivos = commit_loop [''x''] 0 overlong, mensaje = ''first''\<rparr>],
       is_repo_initialized = 1\<rparr>" "''first''"
       "\<lparr>archivos = commit_loop [''x''] 0 overlong, mensaje = ''first''\<rparr>" MAX_FILES] slots
    by (simp add: strncpy_terminated_def MAX_ARG_LENGTH_def del: commit_loop.simps)
  then show ?thesis
    by (simp only: state) simp
qed

end
